theory Spec2Isabelle
  imports Complex_Main "HOL-Library.AList"
begin

section \<open>Python values\<close>

text \<open>
  The orchestrator \<open>AdvancedRAGChat.run\<close> of \<open>fastapi_app/rag_advanced.py\<close> passes
  dynamically typed values around: chat messages and the overrides are dictionaries, an
  override may hold any value, and the search arguments are handed on untouched. These
  values are modelled by one datatype. A dictionary is an association list, in insertion
  order, as Python keeps it. A float is represented by the rational its literal denotes;
  the orchestrator never computes with one.
\<close>

datatype pyval =
    PNone
  | PBool bool
  | PInt int
  | PFloat rat
  | PStr string
  | PList "pyval list"
  | PDict "(string \<times> pyval) list"

type_synonym pydict = "(string \<times> pyval) list"

text \<open>\<open>isinstance(v, str)\<close> and the string held by a \<open>str\<close> value.\<close>

fun isinstance_str :: "pyval \<Rightarrow> bool" where
  "isinstance_str (PStr s) = True"
| "isinstance_str v = False"

fun str_value :: "pyval \<Rightarrow> string" where
  "str_value (PStr s) = s"
| "str_value v = []"

text \<open>Python's truth value of an object, as \<open>x or y\<close> tests it.\<close>

fun truthy :: "pyval \<Rightarrow> bool" where
  "truthy PNone = False"
| "truthy (PBool b) = b"
| "truthy (PInt i) = (i \<noteq> 0)"
| "truthy (PFloat r) = (r \<noteq> 0)"
| "truthy (PStr s) = (s \<noteq> [])"
| "truthy (PList xs) = (xs \<noteq> [])"
| "truthy (PDict kvs) = (kvs \<noteq> [])"

text \<open>
  The exceptions a run can end with. \<open>ValueError\<close> is the one \<open>run\<close> raises itself;
  \<open>IndexError\<close> and \<open>KeyError\<close> come from the subscripts \<open>messages[-1]\<close>,
  \<open>["content"]\<close> and \<open>choices[0]\<close>; \<open>UpstreamError\<close> stands for any exception a
  collaborator raises, which \<open>run\<close> lets through unchanged.
\<close>

datatype error =
    IndexError
  | KeyError string
  | ValueError string
  | UpstreamError string

text \<open>\<open>d.get(k)\<close>, \<open>d.get(k, default)\<close> and \<open>d[k]\<close> on a dictionary.\<close>

definition dict_get :: "pydict \<Rightarrow> string \<Rightarrow> pyval" where
  "dict_get d k = (case map_of d k of None \<Rightarrow> PNone | Some v \<Rightarrow> v)"

definition dict_get_default :: "pydict \<Rightarrow> string \<Rightarrow> pyval \<Rightarrow> pyval" where
  "dict_get_default d k dflt = (case map_of d k of None \<Rightarrow> dflt | Some v \<Rightarrow> v)"

definition dict_getitem :: "pydict \<Rightarrow> string \<Rightarrow> error + pyval" where
  "dict_getitem d k = (case map_of d k of None \<Rightarrow> Inl (KeyError k) | Some v \<Rightarrow> Inr v)"

text \<open>\<open>xs[-1]\<close> raises \<open>IndexError\<close> on the empty list; \<open>xs[:-1]\<close> never raises.\<close>

definition list_last :: "'a list \<Rightarrow> error + 'a" where
  "list_last xs = (if xs = [] then Inl IndexError else Inr (last xs))"

definition list_first :: "'a list \<Rightarrow> error + 'a" where
  "list_first xs = (case xs of [] \<Rightarrow> Inl IndexError | x # _ \<Rightarrow> Inr x)"

text \<open>\<open>sep.join(xs)\<close>.\<close>

fun join :: "string \<Rightarrow> string list \<Rightarrow> string" where
  "join sep [] = []"
| "join sep [x] = x"
| "join sep (x # y # ys) = x @ sep @ join sep (y # ys)"

section \<open>Requests, responses and the collaborators\<close>

text \<open>The keyword arguments of \<open>build_messages\<close> (openai_messages_token_helper).\<close>

record build_request =
  bm_model :: string
  bm_system_prompt :: pyval
  bm_new_user_content :: string
  bm_past_messages :: "pydict list"
  bm_max_tokens :: int
  bm_fallback_to_default :: bool

text \<open>
  The keyword arguments of \<open>chat.completions.create\<close>. An argument the call does not
  pass is \<open>None\<close> here.
\<close>

record chat_request =
  cc_messages :: "pydict list"
  cc_model :: string
  cc_temperature :: pyval
  cc_max_tokens :: int
  cc_n :: int
  cc_tools :: "pyval option"
  cc_tool_choice :: "string option"
  cc_stream :: "bool option"

text \<open>The arguments of \<open>PostgresSearcher.search_and_embed\<close>.\<close>

record search_request =
  se_query_text :: pyval
  se_top :: pyval
  se_enable_vector_search :: bool
  se_enable_text_search :: bool
  se_filters :: pyval

text \<open>A \<open>ChatCompletion\<close>: its choices, each holding a message.\<close>

record tool_call =
  function_name :: string
  function_arguments :: string

record completion_message =
  msg_role :: string
  msg_content :: pyval
  msg_tool_calls :: "tool_call list"

record choice =
  message :: completion_message

record chat_completion =
  choices :: "choice list"

text \<open>
  Every call that leaves \<open>run\<close> for a library or a service is recorded, in order.
\<close>

datatype event =
    BuildMessages build_request
  | ChatCreate chat_request
  | SearchAndEmbed search_request

text \<open>
  The collaborators of a run. None of them is defined in \<open>rag_advanced.py\<close>: the
  prompt builder and the chat client are libraries, the searcher, the query rewriter
  (\<open>build_search_function\<close>, \<open>extract_search_arguments\<close>) and the \<open>Item\<close> class
  (\<open>id\<close>, \<open>to_str_for_rag\<close>, \<open>to_dict\<close>) are imported from sibling modules, and
  \<open>py_str\<close> is Python's built-in \<open>str\<close>, which also formats a value inside an
  f-string. They are parameters, so every statement below holds whatever they do.
\<close>

record 'item env =
  build_messages :: "build_request \<Rightarrow> error + pydict list"
  chat_create :: "chat_request \<Rightarrow> error + chat_completion"
  build_search_function :: pyval
  extract_search_arguments :: "string \<Rightarrow> chat_completion \<Rightarrow> error + (pyval \<times> pyval)"
  search_and_embed :: "search_request \<Rightarrow> error + 'item list"
  item_id :: "'item \<Rightarrow> pyval"
  to_str_for_rag :: "'item \<Rightarrow> string"
  to_dict :: "'item \<Rightarrow> pydict"
  py_str :: "pyval \<Rightarrow> string"

text \<open>The attributes \<open>__init__\<close> stores on the object, other than the collaborators.\<close>

record advanced_rag_chat =
  chat_model :: string
  chat_deployment :: "string option"
  chat_token_limit :: int
  query_prompt_template :: string
  answer_prompt_template :: string

text \<open>
  \<open>__init__\<close>: the token limit is \<open>get_token_limit(chat_model, default_to_minimum=True)\<close>
  and the two templates are the contents of \<open>prompts/query.txt\<close> and
  \<open>prompts/answer.txt\<close>.
\<close>

definition init ::
  "(string \<Rightarrow> bool \<Rightarrow> int) \<Rightarrow> string \<Rightarrow> string \<Rightarrow> string \<Rightarrow> string option \<Rightarrow> advanced_rag_chat"
where
  "init get_token_limit query_txt answer_txt model deployment =
     \<lparr> chat_model = model,
       chat_deployment = deployment,
       chat_token_limit = get_token_limit model True,
       query_prompt_template = query_txt,
       answer_prompt_template = answer_txt \<rparr>"

section \<open>The response\<close>

record message_out =
  content :: string
  role :: string

record thought_step =
  title :: string
  description :: pyval
  props :: "pydict option"

record rag_context =
  data_points :: "(pyval \<times> pydict) list"
  thoughts :: "thought_step list"

record retrieval_response =
  response_message :: message_out
  response_context :: rag_context

section \<open>The orchestrator\<close>

text \<open>
  \<open>self.chat_deployment if self.chat_deployment else self.chat_model\<close>: an empty
  deployment name is false in Python, as \<open>None\<close> is.
\<close>

definition deployment_set :: "advanced_rag_chat \<Rightarrow> bool" where
  "deployment_set self =
     (case chat_deployment self of None \<Rightarrow> False | Some d \<Rightarrow> d \<noteq> [])"

definition completion_model :: "advanced_rag_chat \<Rightarrow> string" where
  "completion_model self =
     (if deployment_set self then the (chat_deployment self) else chat_model self)"

text \<open>The \<open>props\<close> of the two prompt steps.\<close>

definition model_props :: "advanced_rag_chat \<Rightarrow> pydict" where
  "model_props self =
     (if deployment_set self
      then [(''model'', PStr (chat_model self)),
            (''deployment'', PStr (the (chat_deployment self)))]
      else [(''model'', PStr (chat_model self))])"

text \<open>
  \<open>{item.id: item.to_dict() for item in results}\<close>: a later item with a key already
  present replaces the value and keeps the key's position.
\<close>

definition data_points_of :: "'item env \<Rightarrow> 'item list \<Rightarrow> (pyval \<times> pydict) list" where
  "data_points_of env results =
     foldl (\<lambda>d item. AList.update (item_id env item) (to_dict env item) d) [] results"

text \<open>
  The f-string of line 79: "[", the item's id, "]:", the item's text for the prompt, and
  two newlines.
\<close>

definition source_content :: "'item env \<Rightarrow> 'item \<Rightarrow> string" where
  "source_content env item =
     ''['' @ py_str env (item_id env item) @ '']:'' @ to_str_for_rag env item
       @ ''\<newline>\<newline>''"

text \<open>\<open>[str(message) for message in messages]\<close>\<close>

definition str_messages :: "'item env \<Rightarrow> pydict list \<Rightarrow> pyval" where
  "str_messages env msgs = PList (map (\<lambda>m. PStr (py_str env (PDict m))) msgs)"

subsection \<open>The arguments of the five calls\<close>

text \<open>
  Lines 47 to 55: the prompt for the search query, with 500 tokens kept for the reply.
\<close>

definition query_build_request ::
  "advanced_rag_chat \<Rightarrow> string \<Rightarrow> pydict list \<Rightarrow> build_request" where
  "query_build_request self original_user_query past_messages =
    (let query_response_token_limit = 500
     in \<lparr> bm_model = chat_model self,
          bm_system_prompt = PStr (query_prompt_template self),
          bm_new_user_content = original_user_query,
          bm_past_messages = past_messages,
          bm_max_tokens = chat_token_limit self - query_response_token_limit,
          bm_fallback_to_default = True \<rparr>)"

text \<open>Lines 57 to 66: the tool-calling completion.\<close>

definition query_chat_request ::
  "'item env \<Rightarrow> advanced_rag_chat \<Rightarrow> pydict list \<Rightarrow> chat_request" where
  "query_chat_request env self query_messages =
    (let query_response_token_limit = 500
     in \<lparr> cc_messages = query_messages,
          cc_model = completion_model self,
          cc_temperature = PFloat 0,
          cc_max_tokens = query_response_token_limit,
          cc_n = 1,
          cc_tools = Some (build_search_function env),
          cc_tool_choice = Some ''auto'',
          cc_stream = None \<rparr>)"

text \<open>Lines 71 to 77: the retrieval.\<close>

definition retrieval_request ::
  "pyval \<Rightarrow> pyval \<Rightarrow> bool \<Rightarrow> bool \<Rightarrow> pyval \<Rightarrow> search_request" where
  "retrieval_request query_text top' vector_search text_search filters =
     \<lparr> se_query_text = query_text,
       se_top = top',
       se_enable_vector_search = vector_search,
       se_enable_text_search = text_search,
       se_filters = filters \<rparr>"

text \<open>
  Lines 79 to 91: the sources, joined by a newline, and the prompt for the answer, with
  1024 tokens kept for the reply. \<open>overrides.get("prompt_template") or ...\<close> takes the
  override when it is true in Python's sense.
\<close>

definition answer_build_request ::
  "'item env \<Rightarrow> advanced_rag_chat \<Rightarrow> pydict \<Rightarrow> string \<Rightarrow> pydict list \<Rightarrow> 'item list
     \<Rightarrow> build_request" where
  "answer_build_request env self overrides original_user_query past_messages results =
    (let sources_content = map (source_content env) results;
         content' = join ''\<newline>'' sources_content;
         response_token_limit = 1024
     in \<lparr> bm_model = chat_model self,
          bm_system_prompt =
            (if truthy (dict_get overrides ''prompt_template'')
             then dict_get overrides ''prompt_template''
             else PStr (answer_prompt_template self)),
          bm_new_user_content =
            original_user_query @ ''\<newline>\<newline>Sources:\<newline>'' @ content',
          bm_past_messages = past_messages,
          bm_max_tokens = chat_token_limit self - response_token_limit,
          bm_fallback_to_default = True \<rparr>)"

text \<open>Lines 93 to 101: the completion that answers.\<close>

definition answer_chat_request ::
  "advanced_rag_chat \<Rightarrow> pydict \<Rightarrow> pydict list \<Rightarrow> chat_request" where
  "answer_chat_request self overrides contextual_messages =
    (let response_token_limit = 1024
     in \<lparr> cc_messages = contextual_messages,
          cc_model = completion_model self,
          cc_temperature = dict_get_default overrides ''temperature'' (PFloat (3 / 10)),
          cc_max_tokens = response_token_limit,
          cc_n = 1,
          cc_tools = None,
          cc_tool_choice = None,
          cc_stream = Some False \<rparr>)"

text \<open>Lines 104 to 143: the response.\<close>

definition build_response ::
  "'item env \<Rightarrow> advanced_rag_chat \<Rightarrow> completion_message \<Rightarrow> 'item list \<Rightarrow> pydict list
     \<Rightarrow> pyval \<Rightarrow> pyval \<Rightarrow> bool \<Rightarrow> bool \<Rightarrow> pyval \<Rightarrow> pydict list \<Rightarrow> retrieval_response"
where
  "build_response env self first_choice_message results query_messages
       query_text top' vector_search text_search filters contextual_messages =
     \<lparr> response_message =
         \<lparr> content = py_str env (msg_content first_choice_message),
           role = msg_role first_choice_message \<rparr>,
       response_context =
         \<lparr> data_points = data_points_of env results,
           thoughts =
             [ \<lparr> title = ''Prompt to generate search arguments'',
                 description = str_messages env query_messages,
                 props = Some (model_props self) \<rparr>,
               \<lparr> title = ''Search using generated search arguments'',
                 description = query_text,
                 props = Some [(''top'', top'),
                               (''vector_search'', PBool vector_search),
                               (''text_search'', PBool text_search),
                               (''filters'', filters)] \<rparr>,
               \<lparr> title = ''Search results'',
                 description = PList (map (\<lambda>result. PDict (to_dict env result)) results),
                 props = None \<rparr>,
               \<lparr> title = ''Prompt to generate answer'',
                 description = str_messages env contextual_messages,
                 props = Some (model_props self) \<rparr> ] \<rparr> \<rparr>"

subsection \<open>The run\<close>

text \<open>
  Lines 79 to 143, from the search results on: the second prompt, the second completion
  and the response. \<open>calls\<close> holds the calls made so far.
\<close>

definition answer_phase ::
  "'item env \<Rightarrow> advanced_rag_chat \<Rightarrow> pydict \<Rightarrow> event list \<Rightarrow> string \<Rightarrow> pydict list
     \<Rightarrow> pydict list \<Rightarrow> pyval \<Rightarrow> pyval \<Rightarrow> pyval \<Rightarrow> bool \<Rightarrow> bool \<Rightarrow> 'item list
     \<Rightarrow> event list \<times> (error + retrieval_response)"
where
  "answer_phase env self overrides calls original_user_query past_messages query_messages
       query_text filters top' vector_search text_search results =
    (let breq = answer_build_request env self overrides original_user_query past_messages
                  results;
         calls1 = calls @ [BuildMessages breq]
     in case build_messages env breq of
          Inl e \<Rightarrow> (calls1, Inl e)
        | Inr contextual_messages \<Rightarrow>
     (let creq = answer_chat_request self overrides contextual_messages;
          calls2 = calls1 @ [ChatCreate creq]
      in case chat_create env creq of
           Inl e \<Rightarrow> (calls2, Inl e)
         | Inr chat_completion_response \<Rightarrow>
      (case list_first (choices chat_completion_response) of
           Inl e \<Rightarrow> (calls2, Inl e)
         | Inr first_choice \<Rightarrow>
             (calls2, Inr (build_response env self (message first_choice) results
                             query_messages query_text top' vector_search text_search
                             filters contextual_messages)))))"

text \<open>
  Lines 46 to 77: the query prompt, the tool-calling completion, the extraction of the
  search arguments and the retrieval.
\<close>

definition query_phase ::
  "'item env \<Rightarrow> advanced_rag_chat \<Rightarrow> pydict \<Rightarrow> string \<Rightarrow> pydict list
     \<Rightarrow> pyval \<Rightarrow> bool \<Rightarrow> bool \<Rightarrow> event list \<times> (error + retrieval_response)"
where
  "query_phase env self overrides original_user_query past_messages
       top' vector_search text_search =
    (let breq = query_build_request self original_user_query past_messages;
         calls1 = [BuildMessages breq]
     in case build_messages env breq of
          Inl e \<Rightarrow> (calls1, Inl e)
        | Inr query_messages \<Rightarrow>
     (let creq = query_chat_request env self query_messages;
          calls2 = calls1 @ [ChatCreate creq]
      in case chat_create env creq of
           Inl e \<Rightarrow> (calls2, Inl e)
         | Inr chat_completion' \<Rightarrow>
      (case extract_search_arguments env original_user_query chat_completion' of
           Inl e \<Rightarrow> (calls2, Inl e)
         | Inr (query_text, filters) \<Rightarrow>
       (let sreq = retrieval_request query_text top' vector_search text_search filters;
            calls3 = calls2 @ [SearchAndEmbed sreq]
        in case search_and_embed env sreq of
             Inl e \<Rightarrow> (calls3, Inl e)
           | Inr results \<Rightarrow>
               answer_phase env self overrides calls3 original_user_query past_messages
                 query_messages query_text filters top' vector_search text_search results))))"

text \<open>
  \<open>run\<close>, lines 37 to 44: the retrieval flags, the result count, and the check of the
  most recent message. The result is the list of calls made and either the exception the
  run ended with or the response.
\<close>

definition run ::
  "'item env \<Rightarrow> advanced_rag_chat \<Rightarrow> pydict list \<Rightarrow> pydict
     \<Rightarrow> event list \<times> (error + retrieval_response)"
where
  "run env self messages overrides =
    (let text_search =
           (dict_get overrides ''retrieval_mode'' \<in> set [PStr ''text'', PStr ''hybrid'', PNone]);
         vector_search =
           (dict_get overrides ''retrieval_mode'' \<in> set [PStr ''vectors'', PStr ''hybrid'', PNone]);
         top' = dict_get_default overrides ''top'' (PInt 3)
     in case list_last messages of
          Inl e \<Rightarrow> ([], Inl e)
        | Inr last_message \<Rightarrow>
       (case dict_getitem last_message ''content'' of
          Inl e \<Rightarrow> ([], Inl e)
        | Inr original_user_query \<Rightarrow>
            if \<not> isinstance_str original_user_query
            then ([], Inl (ValueError ''The most recent message content must be a string.''))
            else query_phase env self overrides (str_value original_user_query)
                   (butlast messages) top' vector_search text_search))"

section \<open>Reading the record of calls\<close>

fun chat_calls :: "event list \<Rightarrow> chat_request list" where
  "chat_calls [] = []"
| "chat_calls (ChatCreate r # es) = r # chat_calls es"
| "chat_calls (e # es) = chat_calls es"

fun search_calls :: "event list \<Rightarrow> search_request list" where
  "search_calls [] = []"
| "search_calls (SearchAndEmbed r # es) = r # search_calls es"
| "search_calls (e # es) = search_calls es"

fun build_calls :: "event list \<Rightarrow> build_request list" where
  "build_calls [] = []"
| "build_calls (BuildMessages r # es) = r # build_calls es"
| "build_calls (e # es) = build_calls es"

section \<open>The sentences of the specification that are compared with the code\<close>

text \<open>
  The user content of the answer prompt as the specification words it: the original
  query, then two newlines, "Sources:" and a newline, then the context block, in which
  each item is rendered as "[id]: <renderable text>" and two newlines (a space follows
  the colon) and the renderings are concatenated in result order.
\<close>

definition answer_user_content_spec :: "'item env \<Rightarrow> string \<Rightarrow> 'item list \<Rightarrow> string" where
  "answer_user_content_spec env original_user_query results =
     original_user_query @ ''\<newline>\<newline>Sources:\<newline>'' @
     concat (map (\<lambda>item. ''['' @ py_str env (item_id env item) @ '']: ''
                           @ to_str_for_rag env item @ ''\<newline>\<newline>'') results)"

text \<open>
  Modelled from the spec: the RetrievalFilter of section 3, a structured predicate (field,
  comparator, value). The class is not among the sources.
\<close>

record retrieval_filter =
  rf_field :: string
  rf_comparator :: string
  rf_value :: pyval

text \<open>
  Modelled from the spec: the arguments of the tool of section 4.2, one function named
  "search" with a free-text query and an optional structured filter, as they are once the
  payload of the invocation is parsed. The tool schema (\<open>build_search_function\<close>) is not
  among the sources. No filter is the empty list.
\<close>

record filter_argument =
  fa_field :: string
  fa_comparator :: string
  fa_value :: pyval

record search_arguments =
  sa_query :: string
  sa_filters :: "filter_argument list"

text \<open>
  Modelled from the spec: the translation of one filter argument into a RetrievalFilter,
  part of \<open>extract_search_arguments\<close>, which is not among the sources.
\<close>

definition filter_of_argument :: "filter_argument \<Rightarrow> retrieval_filter" where
  "filter_of_argument a =
     \<lparr> rf_field = fa_field a, rf_comparator = fa_comparator a, rf_value = fa_value a \<rparr>"

text \<open>
  Modelled from the spec: the search-argument extractor, \<open>extract_search_arguments\<close> of
  the module \<open>query_rewriter\<close>, which \<open>rag_advanced.py\<close> imports and which is not among
  the sources. The specification gives its contract (section 4.2): when the first choice
  of the completion holds an invocation of the search tool whose arguments can be parsed,
  the result is the refined query text and the filters translated from the arguments;
  when there is no such invocation, or its arguments cannot be parsed, the result is the
  original query with no filter. The parser of the payload is a parameter, which yields
  \<open>None\<close> where the payload is not parseable.
\<close>

definition extract_search_arguments_spec ::
  "(string \<Rightarrow> search_arguments option) \<Rightarrow> string \<Rightarrow> chat_completion
     \<Rightarrow> error + (string \<times> retrieval_filter list)" where
  "extract_search_arguments_spec parse original_user_query completion =
     (case choices completion of
        [] \<Rightarrow> Inr (original_user_query, [])
      | c # _ \<Rightarrow>
          (case find (\<lambda>t. function_name t = ''search'') (msg_tool_calls (message c)) of
             None \<Rightarrow> Inr (original_user_query, [])
           | Some t \<Rightarrow>
               (case parse (function_arguments t) of
                  None \<Rightarrow> Inr (original_user_query, [])
                | Some args \<Rightarrow>
                    Inr (sa_query args, map filter_of_argument (sa_filters args)))))"

section \<open>Sample collaborators\<close>

text \<open>
  A concrete object, conversation and set of collaborators, on which the hypotheses of
  the theorems below are seen to hold. \<open>sample_str\<close> renders a string as itself and an
  integer in decimal, as \<open>str\<close> does; for any other value it yields a fixed marker,
  which no statement reads.
\<close>

fun digits :: "nat \<Rightarrow> string" where
  "digits n = (if n < 10 then [''0123456789'' ! n]
               else digits (n div 10) @ [''0123456789'' ! (n mod 10)])"

fun sample_str :: "pyval \<Rightarrow> string" where
  "sample_str (PStr s) = s"
| "sample_str (PInt i) = (if i < 0 then ''-'' @ digits (nat (- i)) else digits (nat i))"
| "sample_str v = ''<object>''"

definition sample_prompt :: "build_request \<Rightarrow> pydict list" where
  "sample_prompt req =
     [(''role'', PStr ''system''), (''content'', bm_system_prompt req)]
     # bm_past_messages req
     @ [[(''role'', PStr ''user''), (''content'', PStr (bm_new_user_content req))]]"

definition sample_answer :: completion_message where
  "sample_answer =
     \<lparr> msg_role = ''assistant'',
       msg_content = PStr ''Returns are accepted within 30 days [1].'',
       msg_tool_calls = [] \<rparr>"

definition sample_items :: "(int \<times> string) list" where
  "sample_items = [(1, ''Boots''), (2, ''Tent'')]"

definition sample_env :: "(int \<times> string) env" where
  "sample_env =
     \<lparr> build_messages = (\<lambda>req. Inr (sample_prompt req)),
       chat_create = (\<lambda>req. Inr \<lparr> choices = [\<lparr> message = sample_answer \<rparr>] \<rparr>),
       build_search_function = PList [PDict [(''type'', PStr ''function'')]],
       extract_search_arguments = (\<lambda>q c. Inr (PStr q, PList [])),
       search_and_embed = (\<lambda>req. Inr sample_items),
       item_id = (\<lambda>item. PInt (fst item)),
       to_str_for_rag = snd,
       to_dict = (\<lambda>item. [(''id'', PInt (fst item)), (''name'', PStr (snd item))]),
       py_str = sample_str \<rparr>"

definition sample_self :: advanced_rag_chat where
  "sample_self =
     \<lparr> chat_model = ''gpt-4o-mini'',
       chat_deployment = None,
       chat_token_limit = 128000,
       query_prompt_template = ''Generate a search query.'',
       answer_prompt_template = ''Answer from the sources.'' \<rparr>"

definition sample_azure_self :: advanced_rag_chat where
  "sample_azure_self = sample_self \<lparr> chat_deployment := Some ''chat-eastus'' \<rparr>"

definition sample_messages :: "pydict list" where
  "sample_messages =
     [[(''role'', PStr ''user''), (''content'', PStr ''What is the return policy?'')]]"

definition sample_image_messages :: "pydict list" where
  "sample_image_messages =
     [[(''role'', PStr ''user''),
       (''content'', PList [PDict [(''type'', PStr ''text''), (''text'', PStr ''Hello'')]])]]"

definition sample_overrides :: pydict where
  "sample_overrides = [(''retrieval_mode'', PStr ''text''), (''top'', PInt 1)]"


text \<open>
  A stand-in for the parser of the tool-call payload, which accepts one payload, and a
  completion that holds one search tool invocation with a given payload.
\<close>

definition sample_parse :: "string \<Rightarrow> search_arguments option" where
  "sample_parse payload =
     (if payload = ''{query: hiking boots, filter: price < 50}''
      then Some \<lparr> sa_query = ''hiking boots'',
                  sa_filters = [\<lparr> fa_field = ''price'', fa_comparator = ''<'',
                                  fa_value = PInt 50 \<rparr>] \<rparr>
      else None)"

definition sample_tool_completion :: "string \<Rightarrow> chat_completion" where
  "sample_tool_completion payload =
     \<lparr> choices = [\<lparr> message =
         \<lparr> msg_role = ''assistant'',
           msg_content = PNone,
           msg_tool_calls = [\<lparr> function_name = ''search'',
                               function_arguments = payload \<rparr>] \<rparr> \<rparr>] \<rparr>"

section \<open>How a run unfolds\<close>

text \<open>
  The outcomes of the two phases and of \<open>run\<close>, as case rules: the calls made and the
  result, for each place where the run can end.
\<close>

lemma answer_phase_cases [consumes 1]:
  fixes env :: "'item env"
  assumes ph: "answer_phase env self overrides calls q past qm query_text filters top' vs ts
                 results = (calls', res)"
  obtains
    (a_build) e where
      "build_messages env (answer_build_request env self overrides q past results) = Inl e"
      "calls' = calls @ [BuildMessages (answer_build_request env self overrides q past results)]"
      "res = Inl e"
  | (a_chat) cm e where
      "build_messages env (answer_build_request env self overrides q past results) = Inr cm"
      "chat_create env (answer_chat_request self overrides cm) = Inl e
         \<or> (\<exists>r. chat_create env (answer_chat_request self overrides cm) = Inr r
                \<and> choices r = [] \<and> e = IndexError)"
      "calls' = calls @ [BuildMessages (answer_build_request env self overrides q past results),
                         ChatCreate (answer_chat_request self overrides cm)]"
      "res = Inl e"
  | (a_ok) cm answer first_choice rest where
      "build_messages env (answer_build_request env self overrides q past results) = Inr cm"
      "chat_create env (answer_chat_request self overrides cm) = Inr answer"
      "choices answer = first_choice # rest"
      "calls' = calls @ [BuildMessages (answer_build_request env self overrides q past results),
                         ChatCreate (answer_chat_request self overrides cm)]"
      "res = Inr (build_response env self (message first_choice) results qm query_text top'
                    vs ts filters cm)"
proof (cases "build_messages env (answer_build_request env self overrides q past results)")
  case (Inl e)
  with ph a_build show ?thesis
    by (simp add: answer_phase_def Let_def)
next
  case b: (Inr cm)
  show ?thesis
  proof (cases "chat_create env (answer_chat_request self overrides cm)")
    case (Inl e)
    with ph b a_chat [of cm e] show ?thesis
      by (simp add: answer_phase_def Let_def)
  next
    case c: (Inr answer)
    show ?thesis
    proof (cases "choices answer")
      case Nil
      with ph b c a_chat [of cm IndexError] show ?thesis
        by (simp add: answer_phase_def Let_def list_first_def)
    next
      case (Cons first_choice rest)
      with ph b c a_ok [of cm answer first_choice rest] show ?thesis
        by (simp add: answer_phase_def Let_def list_first_def)
    qed
  qed
qed

lemma query_phase_cases [consumes 1]:
  fixes env :: "'item env"
  assumes ph: "query_phase env self overrides q past top' vs ts = (calls, res)"
  obtains
    (build1) e where
      "build_messages env (query_build_request self q past) = Inl e"
      "calls = [BuildMessages (query_build_request self q past)]"
      "res = Inl e"
  | (chat1) qm e where
      "build_messages env (query_build_request self q past) = Inr qm"
      "chat_create env (query_chat_request env self qm) = Inl e
         \<or> (\<exists>completion. chat_create env (query_chat_request env self qm) = Inr completion
                \<and> extract_search_arguments env q completion = Inl e)"
      "calls = [BuildMessages (query_build_request self q past),
                ChatCreate (query_chat_request env self qm)]"
      "res = Inl e"
  | (search) qm completion query_text filters e where
      "build_messages env (query_build_request self q past) = Inr qm"
      "chat_create env (query_chat_request env self qm) = Inr completion"
      "extract_search_arguments env q completion = Inr (query_text, filters)"
      "search_and_embed env (retrieval_request query_text top' vs ts filters) = Inl e"
      "calls = [BuildMessages (query_build_request self q past),
                ChatCreate (query_chat_request env self qm),
                SearchAndEmbed (retrieval_request query_text top' vs ts filters)]"
      "res = Inl e"
  | (build2) qm completion query_text filters results e where
      "build_messages env (query_build_request self q past) = Inr qm"
      "chat_create env (query_chat_request env self qm) = Inr completion"
      "extract_search_arguments env q completion = Inr (query_text, filters)"
      "search_and_embed env (retrieval_request query_text top' vs ts filters) = Inr results"
      "build_messages env (answer_build_request env self overrides q past results) = Inl e"
      "calls = [BuildMessages (query_build_request self q past),
                ChatCreate (query_chat_request env self qm),
                SearchAndEmbed (retrieval_request query_text top' vs ts filters),
                BuildMessages (answer_build_request env self overrides q past results)]"
      "res = Inl e"
  | (chat2) qm completion query_text filters results cm e where
      "build_messages env (query_build_request self q past) = Inr qm"
      "chat_create env (query_chat_request env self qm) = Inr completion"
      "extract_search_arguments env q completion = Inr (query_text, filters)"
      "search_and_embed env (retrieval_request query_text top' vs ts filters) = Inr results"
      "build_messages env (answer_build_request env self overrides q past results) = Inr cm"
      "calls = [BuildMessages (query_build_request self q past),
                ChatCreate (query_chat_request env self qm),
                SearchAndEmbed (retrieval_request query_text top' vs ts filters),
                BuildMessages (answer_build_request env self overrides q past results),
                ChatCreate (answer_chat_request self overrides cm)]"
      "res = Inl e"
  | (ok) qm completion query_text filters results cm answer first_choice rest where
      "build_messages env (query_build_request self q past) = Inr qm"
      "chat_create env (query_chat_request env self qm) = Inr completion"
      "extract_search_arguments env q completion = Inr (query_text, filters)"
      "search_and_embed env (retrieval_request query_text top' vs ts filters) = Inr results"
      "build_messages env (answer_build_request env self overrides q past results) = Inr cm"
      "chat_create env (answer_chat_request self overrides cm) = Inr answer"
      "choices answer = first_choice # rest"
      "calls = [BuildMessages (query_build_request self q past),
                ChatCreate (query_chat_request env self qm),
                SearchAndEmbed (retrieval_request query_text top' vs ts filters),
                BuildMessages (answer_build_request env self overrides q past results),
                ChatCreate (answer_chat_request self overrides cm)]"
      "res = Inr (build_response env self (message first_choice) results qm query_text top'
                    vs ts filters cm)"
proof (cases "build_messages env (query_build_request self q past)")
  case (Inl e)
  with ph build1 show ?thesis
    by (simp add: query_phase_def Let_def)
next
  case b: (Inr qm)
  show ?thesis
  proof (cases "chat_create env (query_chat_request env self qm)")
    case (Inl e)
    with ph b chat1 [of qm e] show ?thesis
      by (simp add: query_phase_def Let_def)
  next
    case c: (Inr completion)
    show ?thesis
    proof (cases "extract_search_arguments env q completion")
      case (Inl e)
      with ph b c chat1 [of qm e] show ?thesis
        by (simp add: query_phase_def Let_def)
    next
      case (Inr args)
      then obtain query_text filters
        where x: "extract_search_arguments env q completion = Inr (query_text, filters)"
        by (cases args) simp
      show ?thesis
      proof (cases "search_and_embed env (retrieval_request query_text top' vs ts filters)")
        case (Inl e)
        with ph b c x search [of qm completion query_text filters e] show ?thesis
          by (simp add: query_phase_def Let_def)
      next
        case s: (Inr results)
        from ph b c x s have a:
          "answer_phase env self overrides
             [BuildMessages (query_build_request self q past),
              ChatCreate (query_chat_request env self qm),
              SearchAndEmbed (retrieval_request query_text top' vs ts filters)]
             q past qm query_text filters top' vs ts results = (calls, res)"
          by (simp add: query_phase_def Let_def)
        from a show ?thesis
        proof (cases rule: answer_phase_cases)
          case (a_build e)
          with b c x s build2 [of qm completion query_text filters results e] show ?thesis
            by simp
        next
          case (a_chat cm e)
          with b c x s chat2 [of qm completion query_text filters results cm e] show ?thesis
            by simp
        next
          case (a_ok cm answer first_choice rest)
          with b c x s ok [of qm completion query_text filters results cm answer first_choice rest]
          show ?thesis
            by simp
        qed
      qed
    qed
  qed
qed

lemma run_rejected:
  assumes "messages = [] \<or> map_of (last messages) ''content'' = None
             \<or> (\<exists>c. map_of (last messages) ''content'' = Some c \<and> \<not> isinstance_str c)"
  shows "\<exists>e. run env self messages overrides = ([], Inl e)"
  using assms by (auto simp: run_def list_last_def dict_getitem_def)

lemma run_accepted:
  assumes "messages \<noteq> []" and "map_of (last messages) ''content'' = Some (PStr q)"
  shows "run env self messages overrides =
           query_phase env self overrides q (butlast messages)
             (dict_get_default overrides ''top'' (PInt 3))
             (dict_get overrides ''retrieval_mode''
                \<in> set [PStr ''vectors'', PStr ''hybrid'', PNone])
             (dict_get overrides ''retrieval_mode''
                \<in> set [PStr ''text'', PStr ''hybrid'', PNone])"
  using assms by (simp add: run_def list_last_def dict_getitem_def Let_def)

lemma content_cases:
  obtains "messages = [] \<or> map_of (last messages) ''content'' = None
             \<or> (\<exists>c. map_of (last messages) ''content'' = Some c \<and> \<not> isinstance_str c)"
  | q where "messages \<noteq> []" "map_of (last messages) ''content'' = Some (PStr q)"
proof (cases "messages = []")
  case True
  then show ?thesis using that(1) by simp
next
  case ne: False
  show ?thesis
  proof (cases "map_of (last messages) ''content''")
    case None
    then show ?thesis using that(1) by simp
  next
    case (Some c)
    then show ?thesis using ne that by (cases c) auto
  qed
qed

lemma vector_flag:
  "(dict_get overrides ''retrieval_mode'' \<in> set [PStr ''vectors'', PStr ''hybrid'', PNone]) =
   (map_of overrides ''retrieval_mode''
      \<in> {None, Some PNone, Some (PStr ''vectors''), Some (PStr ''hybrid'')})"
  by (auto simp: dict_get_def split: option.splits)

lemma text_flag:
  "(dict_get overrides ''retrieval_mode'' \<in> set [PStr ''text'', PStr ''hybrid'', PNone]) =
   (map_of overrides ''retrieval_mode''
      \<in> {None, Some PNone, Some (PStr ''text''), Some (PStr ''hybrid'')})"
  by (auto simp: dict_get_def split: option.splits)

lemma run_cases [consumes 1]:
  fixes env :: "'item env"
  assumes run: "run env self messages overrides = (calls, res)"
  obtains
    (rejected) e where "calls = []" "res = Inl e"
  | (accepted) q where
      "messages \<noteq> []" "map_of (last messages) ''content'' = Some (PStr q)"
      "query_phase env self overrides q (butlast messages)
         (case map_of overrides ''top'' of None \<Rightarrow> PInt 3 | Some t \<Rightarrow> t)
         (map_of overrides ''retrieval_mode''
            \<in> {None, Some PNone, Some (PStr ''vectors''), Some (PStr ''hybrid'')})
         (map_of overrides ''retrieval_mode''
            \<in> {None, Some PNone, Some (PStr ''text''), Some (PStr ''hybrid'')}) = (calls, res)"
proof (cases rule: content_cases [of messages])
  case 1
  from run_rejected [OF this, of env self overrides] run rejected show ?thesis by auto
next
  case (2 q)
  from run_accepted [OF 2, of env self overrides, unfolded vector_flag text_flag
      dict_get_default_def] run accepted [OF 2]
  show ?thesis by simp
qed

lemma run_success [consumes 1]:
  fixes env :: "'item env"
  assumes run: "run env self messages overrides = (calls, Inr resp)"
  obtains q qm completion query_text filters results cm answer first_choice rest top' vs ts
  where
    "messages \<noteq> []" "map_of (last messages) ''content'' = Some (PStr q)"
    "top' = (case map_of overrides ''top'' of None \<Rightarrow> PInt 3 | Some t \<Rightarrow> t)"
    "vs = (map_of overrides ''retrieval_mode''
            \<in> {None, Some PNone, Some (PStr ''vectors''), Some (PStr ''hybrid'')})"
    "ts = (map_of overrides ''retrieval_mode''
            \<in> {None, Some PNone, Some (PStr ''text''), Some (PStr ''hybrid'')})"
    "build_messages env (query_build_request self q (butlast messages)) = Inr qm"
    "chat_create env (query_chat_request env self qm) = Inr completion"
    "extract_search_arguments env q completion = Inr (query_text, filters)"
    "search_and_embed env (retrieval_request query_text top' vs ts filters) = Inr results"
    "build_messages env (answer_build_request env self overrides q (butlast messages) results)
       = Inr cm"
    "chat_create env (answer_chat_request self overrides cm) = Inr answer"
    "choices answer = first_choice # rest"
    "calls = [BuildMessages (query_build_request self q (butlast messages)),
              ChatCreate (query_chat_request env self qm),
              SearchAndEmbed (retrieval_request query_text top' vs ts filters),
              BuildMessages (answer_build_request env self overrides q (butlast messages)
                               results),
              ChatCreate (answer_chat_request self overrides cm)]"
    "resp = build_response env self (message first_choice) results qm query_text top'
              vs ts filters cm"
  using run
proof (cases rule: run_cases)
  case (rejected e)
  then show ?thesis by simp
next
  case (accepted q)
  from accepted(3) show ?thesis
  proof (cases rule: query_phase_cases)
    case (ok qm completion query_text filters results cm answer first_choice rest)
    with accepted(1,2) that show ?thesis by simp
  qed simp_all
qed

text \<open>The same on the sample collaborators, where every call succeeds.\<close>

lemma sample_run:
  "run sample_env self sample_messages overrides =
     ([BuildMessages (query_build_request self ''What is the return policy?'' []),
       ChatCreate (query_chat_request sample_env self
         (sample_prompt (query_build_request self ''What is the return policy?'' []))),
       SearchAndEmbed (retrieval_request (PStr ''What is the return policy?'')
         (dict_get_default overrides ''top'' (PInt 3))
         (dict_get overrides ''retrieval_mode''
            \<in> set [PStr ''vectors'', PStr ''hybrid'', PNone])
         (dict_get overrides ''retrieval_mode''
            \<in> set [PStr ''text'', PStr ''hybrid'', PNone])
         (PList [])),
       BuildMessages (answer_build_request sample_env self overrides
         ''What is the return policy?'' [] sample_items),
       ChatCreate (answer_chat_request self overrides
         (sample_prompt (answer_build_request sample_env self overrides
            ''What is the return policy?'' [] sample_items)))],
      Inr (build_response sample_env self sample_answer sample_items
             (sample_prompt (query_build_request self ''What is the return policy?'' []))
             (PStr ''What is the return policy?'')
             (dict_get_default overrides ''top'' (PInt 3))
             (dict_get overrides ''retrieval_mode''
                \<in> set [PStr ''vectors'', PStr ''hybrid'', PNone])
             (dict_get overrides ''retrieval_mode''
                \<in> set [PStr ''text'', PStr ''hybrid'', PNone])
             (PList [])
             (sample_prompt (answer_build_request sample_env self overrides
                ''What is the return policy?'' [] sample_items))))"
  by (simp add: run_def query_phase_def answer_phase_def sample_env_def sample_messages_def
        list_last_def dict_getitem_def list_first_def Let_def)

section \<open>The dictionary of data points\<close>

lemma update_in_set:
  "(k', v') \<in> set (AList.update k v al) \<Longrightarrow> (k', v') = (k, v) \<or> (k', v') \<in> set al"
  by (induction al) (auto split: if_splits)

lemma update_fresh:
  "k \<notin> fst ` set al \<Longrightarrow> AList.update k v al = al @ [(k, v)]"
  by (induction al) auto

lemma foldl_update_keys:
  "fst ` set (foldl (\<lambda>d x. AList.update (f x) (g x) d) d0 xs) = fst ` set d0 \<union> f ` set xs"
  by (induction xs arbitrary: d0) (auto simp: dom_update)

lemma foldl_update_distinct:
  "distinct (map fst d0) \<Longrightarrow>
     distinct (map fst (foldl (\<lambda>d x. AList.update (f x) (g x) d) d0 xs))"
  by (induction xs arbitrary: d0) (simp_all add: distinct_update)

lemma foldl_update_in_set:
  "(k, v) \<in> set (foldl (\<lambda>d x. AList.update (f x) (g x) d) d0 xs) \<Longrightarrow>
     (k, v) \<in> set d0 \<or> (\<exists>x\<in>set xs. f x = k \<and> g x = v)"
proof (induction xs arbitrary: d0)
  case Nil
  then show ?case by simp
next
  case (Cons x xs)
  from Cons.prems have
    "(k, v) \<in> set (foldl (\<lambda>d x. AList.update (f x) (g x) d) (AList.update (f x) (g x) d0) xs)"
    by simp
  from Cons.IH [OF this] show ?case
    using update_in_set [of k v "f x" "g x" d0] by auto
qed

lemma foldl_update_fresh:
  "distinct (map f xs) \<Longrightarrow> f ` set xs \<inter> fst ` set d0 = {} \<Longrightarrow>
     foldl (\<lambda>d x. AList.update (f x) (g x) d) d0 xs = d0 @ map (\<lambda>x. (f x, g x)) xs"
proof (induction xs arbitrary: d0)
  case Nil
  then show ?case by simp
next
  case (Cons x xs)
  from Cons.prems have fresh: "f x \<notin> fst ` set d0" by auto
  have step: "AList.update (f x) (g x) d0 = d0 @ [(f x, g x)]"
    by (rule update_fresh [OF fresh])
  from Cons.prems have "f ` set xs \<inter> fst ` set (d0 @ [(f x, g x)]) = {}" by auto
  with Cons.prems Cons.IH [of "d0 @ [(f x, g x)]"] step show ?case by simp
qed

lemma data_points_keys:
  "fst ` set (data_points_of env results) = item_id env ` set results"
  by (simp add: data_points_of_def foldl_update_keys)

lemma data_points_distinct: "distinct (map fst (data_points_of env results))"
  by (simp add: data_points_of_def foldl_update_distinct)

lemma data_points_values:
  "(k, v) \<in> set (data_points_of env results) \<Longrightarrow>
     \<exists>item\<in>set results. item_id env item = k \<and> to_dict env item = v"
  unfolding data_points_of_def
  using foldl_update_in_set [of k v "item_id env" "to_dict env" "[]" results] by simp

lemma data_points_distinct_ids:
  "distinct (map (item_id env) results) \<Longrightarrow>
     data_points_of env results = map (\<lambda>item. (item_id env item, to_dict env item)) results"
  unfolding data_points_of_def
  using foldl_update_fresh [of "item_id env" results "[]" "to_dict env"] by simp

lemma source_content_fun:
  "source_content env =
     (\<lambda>item. ''['' @ py_str env (item_id env item) @ '']:''
               @ to_str_for_rag env item @ ''\<newline>\<newline>'')"
  by (rule ext) (simp add: source_content_def)

section \<open>Validation of the input\<close>

text \<open>
  C10. With the empty list of messages, \<open>messages[-1]\<close> raises \<open>IndexError\<close> before the
  \<open>isinstance\<close> check is reached: the run ends with that exception, not with the
  \<open>ValueError\<close> of the check, and makes no call.
\<close>

theorem run_empty_messages:
  "run env self [] overrides = ([], Inl IndexError)"
  by (simp add: run_def list_last_def)

text \<open>
  C1. When the last message has a content that is not a string, the run ends with the
  \<open>ValueError\<close> of line 43 (the specification's InvalidInputError), and the record of
  calls is empty: no prompt is built, no completion and no retrieval is requested, and
  no response is constructed.
\<close>

theorem run_rejects_non_string_content:
  assumes "messages \<noteq> []"
    and "map_of (last messages) ''content'' = Some c"
    and "\<not> isinstance_str c"
  shows "run env self messages overrides =
           ([], Inl (ValueError ''The most recent message content must be a string.''))"
  using assms by (simp add: run_def list_last_def dict_getitem_def)

text \<open>C1 on a message whose content is a list of parts.\<close>

theorem run_rejects_non_string_content_witness:
  "sample_image_messages \<noteq> [] \<and>
   map_of (last sample_image_messages) ''content''
     = Some (PList [PDict [(''type'', PStr ''text''), (''text'', PStr ''Hello'')]]) \<and>
   \<not> isinstance_str (PList [PDict [(''type'', PStr ''text''), (''text'', PStr ''Hello'')]]) \<and>
   run sample_env sample_self sample_image_messages []
     = ([], Inl (ValueError ''The most recent message content must be a string.''))"
proof -
  have h1: "sample_image_messages \<noteq> []"
    by (simp add: sample_image_messages_def)
  have h2: "map_of (last sample_image_messages) ''content''
              = Some (PList [PDict [(''type'', PStr ''text''), (''text'', PStr ''Hello'')]])"
    by (simp add: sample_image_messages_def)
  have h3: "\<not> isinstance_str
                (PList [PDict [(''type'', PStr ''text''), (''text'', PStr ''Hello'')]])"
    by simp
  from h1 h2 h3 run_rejects_non_string_content [OF h1 h2 h3, of sample_env sample_self "[]"]
  show ?thesis by simp
qed

section \<open>The retrieval\<close>

text \<open>
  C2. Every run either ends with an exception before the retrieval, having called the
  gateway not at all, or calls it exactly once, with: the query text and the filters that
  \<open>extract_search_arguments\<close> returned for the last message and the first completion; the
  \<open>top\<close> override, or 3 when the key is absent; vector search enabled exactly when
  \<open>retrieval_mode\<close> is "vectors", "hybrid" or unset (the key absent, or mapped to
  \<open>None\<close>); text search enabled exactly when it is "text", "hybrid" or unset.
\<close>

theorem run_retrieval_call:
  assumes "run env self messages overrides = (calls, res)"
  shows "(\<exists>q completion query_text filters.
            map_of (last messages) ''content'' = Some (PStr q) \<and>
            chat_create env (hd (chat_calls calls)) = Inr completion \<and>
            extract_search_arguments env q completion = Inr (query_text, filters) \<and>
            search_calls calls =
              [\<lparr> se_query_text = query_text,
                 se_top = (case map_of overrides ''top'' of None \<Rightarrow> PInt 3 | Some t \<Rightarrow> t),
                 se_enable_vector_search =
                   (map_of overrides ''retrieval_mode''
                      \<in> {None, Some PNone, Some (PStr ''vectors''), Some (PStr ''hybrid'')}),
                 se_enable_text_search =
                   (map_of overrides ''retrieval_mode''
                      \<in> {None, Some PNone, Some (PStr ''text''), Some (PStr ''hybrid'')}),
                 se_filters = filters \<rparr>])
         \<or> (search_calls calls = [] \<and> (\<exists>e. res = Inl e))"
  using assms
proof (cases rule: run_cases)
  case (rejected e)
  then show ?thesis by simp
next
  case (accepted q)
  from accepted(3) show ?thesis
    by (cases rule: query_phase_cases)
       (use accepted(2) in \<open>simp_all add: retrieval_request_def\<close>)
qed

text \<open>C2 on the overrides \<open>{"retrieval_mode": "text", "top": 1}\<close>.\<close>

theorem run_retrieval_call_witness:
  "search_calls (fst (run sample_env sample_self sample_messages sample_overrides)) =
     [\<lparr> se_query_text = PStr ''What is the return policy?'',
        se_top = PInt 1,
        se_enable_vector_search = False,
        se_enable_text_search = True,
        se_filters = PList [] \<rparr>]"
proof -
  note h = sample_run [of sample_self sample_overrides]
  from run_retrieval_call [OF h] show ?thesis
    unfolding h
    by (simp add: sample_overrides_def retrieval_request_def dict_get_def dict_get_default_def)
qed

section \<open>The returned response\<close>

text \<open>
  C3. In a run that returns a response, the keys of \<open>data_points\<close> are exactly the ids of
  the items the retrieval returned, each key occurs once, and each key is mapped to the
  dict form of an item with that id; when the ids of the items are pairwise distinct, there
  is one entry per item and each item's id is mapped to that item's dict form.
\<close>

theorem run_data_points:
  assumes "run env self messages overrides = (calls, Inr resp)"
  shows "\<exists>r results.
           search_calls calls = [r] \<and> search_and_embed env r = Inr results \<and>
           fst ` set (data_points (response_context resp)) = item_id env ` set results \<and>
           distinct (map fst (data_points (response_context resp))) \<and>
           (\<forall>(k, v) \<in> set (data_points (response_context resp)).
              \<exists>item \<in> set results. item_id env item = k \<and> to_dict env item = v) \<and>
           (distinct (map (item_id env) results) \<longrightarrow>
              length (data_points (response_context resp)) = length results \<and>
              (\<forall>item \<in> set results.
                 map_of (data_points (response_context resp)) (item_id env item)
                   = Some (to_dict env item)))"
  using assms
proof (cases rule: run_success)
  case (1 q qm completion query_text filters results cm answer first_choice rest top' vs ts)
  have dp: "data_points (response_context resp) = data_points_of env results"
    using 1(14) by (simp add: build_response_def)
  have sc: "search_calls calls = [retrieval_request query_text top' vs ts filters]"
    using 1(13) by simp
  have keys: "fst ` set (data_points_of env results) = item_id env ` set results"
    by (rule data_points_keys)
  have dist: "distinct (map fst (data_points_of env results))"
    by (rule data_points_distinct)
  have vals: "\<forall>(k, v) \<in> set (data_points_of env results).
                \<exists>item \<in> set results. item_id env item = k \<and> to_dict env item = v"
    using data_points_values [of _ _ env results] by blast
  have uniq: "length (data_points_of env results) = length results \<and>
              (\<forall>item \<in> set results.
                 map_of (data_points_of env results) (item_id env item)
                   = Some (to_dict env item))"
    if d: "distinct (map (item_id env) results)"
  proof -
    have eq: "data_points_of env results
                = map (\<lambda>item. (item_id env item, to_dict env item)) results"
      by (rule data_points_distinct_ids [OF d])
    have "map_of (map (\<lambda>item. (item_id env item, to_dict env item)) results)
            (item_id env item) = Some (to_dict env item)"
      if "item \<in> set results" for item
    proof -
      have "distinct (map fst (map (\<lambda>item. (item_id env item, to_dict env item)) results))"
        using d by (simp add: comp_def)
      moreover have "(item_id env item, to_dict env item)
                       \<in> set (map (\<lambda>item. (item_id env item, to_dict env item)) results)"
        using that by auto
      ultimately show ?thesis by (simp only: map_of_eq_Some_iff)
    qed
    with eq show ?thesis by simp
  qed
  from sc 1(9) keys dist vals uniq show ?thesis
    unfolding dp by blast
qed

text \<open>C3 on the sample run, whose retrieval returns the items 1 and 2.\<close>

theorem run_data_points_witness:
  "\<not> isl (snd (run sample_env sample_self sample_messages [])) \<and>
   fst ` set (data_points (response_context
            (projr (snd (run sample_env sample_self sample_messages [])))))
     = {PInt 1, PInt 2} \<and>
   map_of (data_points (response_context
            (projr (snd (run sample_env sample_self sample_messages []))))) (PInt 2)
     = Some [(''id'', PInt 2), (''name'', PStr ''Tent'')]"
proof -
  note h = sample_run [of sample_self "[]"]
  have ids: "distinct (map (item_id sample_env) sample_items)"
    by (simp add: sample_env_def sample_items_def)
  from run_data_points [OF h] obtain r results where
    s: "search_and_embed sample_env r = Inr results" and
    ks: "fst ` set (data_points (response_context (projr (snd
           (run sample_env sample_self sample_messages [])))))
         = item_id sample_env ` set results" and
    k: "distinct (map (item_id sample_env) results) \<longrightarrow>
          (\<forall>item \<in> set results.
             map_of (data_points (response_context (projr (snd
                (run sample_env sample_self sample_messages [])))))
               (item_id sample_env item) = Some (to_dict sample_env item))"
    unfolding h by auto
  from s have res: "results = sample_items"
    by (simp add: sample_env_def)
  have a: "\<not> isl (snd (run sample_env sample_self sample_messages []))"
    by (simp add: h)
  have b: "item_id sample_env ` set sample_items = {PInt 1, PInt 2}"
    by (auto simp: sample_env_def sample_items_def)
  have c: "item_id sample_env (2, ''Tent'') = PInt 2"
    "to_dict sample_env (2, ''Tent'') = [(''id'', PInt 2), (''name'', PStr ''Tent'')]"
    by (simp_all add: sample_env_def)
  have m: "(2, ''Tent'') \<in> set sample_items"
    by (simp add: sample_items_def)
  from k ids m have "map_of (data_points (response_context (projr (snd
                (run sample_env sample_self sample_messages [])))))
               (item_id sample_env (2, ''Tent'')) = Some (to_dict sample_env (2, ''Tent''))"
    unfolding res by blast
  then have d: "map_of (data_points (response_context (projr (snd
                (run sample_env sample_self sample_messages []))))) (PInt 2)
                  = Some [(''id'', PInt 2), (''name'', PStr ''Tent'')]"
    unfolding c .
  from a ks [unfolded res b] d show ?thesis
    by (intro conjI)
qed

text \<open>
  C4. In a run that returns a response, \<open>thoughts\<close> has exactly four steps, titled and
  filled in the fixed order: the messages of the query prompt, the query text passed to
  the retrieval, the dict forms of the items the retrieval returned, the messages of the
  answer prompt. The second step's description is the query text of the one retrieval
  call, and its props record that call's top, its two flags and its filters.
\<close>

theorem run_thoughts:
  assumes "run env self messages overrides = (calls, Inr resp)"
  shows "\<exists>b1 b2 r qm cm results.
           build_calls calls = [b1, b2] \<and> search_calls calls = [r] \<and>
           build_messages env b1 = Inr qm \<and> build_messages env b2 = Inr cm \<and>
           search_and_embed env r = Inr results \<and>
           map title (thoughts (response_context resp)) =
             [''Prompt to generate search arguments'',
              ''Search using generated search arguments'',
              ''Search results'',
              ''Prompt to generate answer''] \<and>
           map description (thoughts (response_context resp)) =
             [str_messages env qm,
              se_query_text r,
              PList (map (\<lambda>result. PDict (to_dict env result)) results),
              str_messages env cm] \<and>
           props (thoughts (response_context resp) ! 1) =
             Some [(''top'', se_top r),
                   (''vector_search'', PBool (se_enable_vector_search r)),
                   (''text_search'', PBool (se_enable_text_search r)),
                   (''filters'', se_filters r)]"
  using assms
proof (cases rule: run_success)
  case (1 q qm completion query_text filters results cm answer first_choice rest top' vs ts)
  from 1(6,9,10,13,14) show ?thesis
    by (simp add: build_response_def retrieval_request_def)
qed

text \<open>C4 on the sample run with the overrides \<open>{"retrieval_mode": "text", "top": 1}\<close>.\<close>

theorem run_thoughts_witness:
  "\<not> isl (snd (run sample_env sample_self sample_messages sample_overrides)) \<and>
   map title (thoughts (response_context
      (projr (snd (run sample_env sample_self sample_messages sample_overrides))))) =
     [''Prompt to generate search arguments'',
      ''Search using generated search arguments'',
      ''Search results'',
      ''Prompt to generate answer''] \<and>
   description (thoughts (response_context
      (projr (snd (run sample_env sample_self sample_messages sample_overrides)))) ! 1)
     = PStr ''What is the return policy?'' \<and>
   props (thoughts (response_context
      (projr (snd (run sample_env sample_self sample_messages sample_overrides)))) ! 1) =
     Some [(''top'', PInt 1), (''vector_search'', PBool False),
           (''text_search'', PBool True), (''filters'', PList [])]"
proof -
  note h = sample_run [of sample_self sample_overrides]
  have a: "\<not> isl (snd (run sample_env sample_self sample_messages sample_overrides))"
    by (simp add: h)
  from run_thoughts [OF h] show ?thesis
    unfolding h
    by (simp add: sample_overrides_def retrieval_request_def dict_get_def dict_get_default_def
          build_response_def)
qed

section \<open>The two completions\<close>

text \<open>
  C5. A run requests at most two completions, and exactly two when it returns a response.
  The first is requested at temperature 0.0 with n = 1, the search tool schema of
  \<open>build_search_function\<close>, tool choice "auto" and at most 500 output tokens; the second
  with stream = False, n = 1, at most 1024 output tokens, and the \<open>temperature\<close> override,
  or 0.3 when the key is absent.
\<close>

theorem run_completion_parameters:
  assumes "run env self messages overrides = (calls, res)"
  shows "length (chat_calls calls) \<le> 2 \<and>
         (chat_calls calls \<noteq> [] \<longrightarrow>
            cc_temperature (chat_calls calls ! 0) = PFloat 0 \<and>
            cc_n (chat_calls calls ! 0) = 1 \<and>
            cc_tools (chat_calls calls ! 0) = Some (build_search_function env) \<and>
            cc_tool_choice (chat_calls calls ! 0) = Some ''auto'' \<and>
            cc_max_tokens (chat_calls calls ! 0) = 500) \<and>
         (length (chat_calls calls) = 2 \<longrightarrow>
            cc_stream (chat_calls calls ! 1) = Some False \<and>
            cc_n (chat_calls calls ! 1) = 1 \<and>
            cc_max_tokens (chat_calls calls ! 1) = 1024 \<and>
            cc_temperature (chat_calls calls ! 1) =
              (case map_of overrides ''temperature'' of
                 None \<Rightarrow> PFloat (3 / 10) | Some t \<Rightarrow> t)) \<and>
         ((\<exists>resp. res = Inr resp) \<longrightarrow> length (chat_calls calls) = 2)"
  using assms
proof (cases rule: run_cases)
  case (rejected e)
  then show ?thesis by simp
next
  case (accepted q)
  from accepted(3) show ?thesis
    by (cases rule: query_phase_cases)
       (simp_all add: query_chat_request_def answer_chat_request_def dict_get_default_def)
qed

text \<open>C5 on the sample run without overrides.\<close>

theorem run_completion_parameters_witness:
  "map cc_temperature (chat_calls (fst (run sample_env sample_self sample_messages [])))
     = [PFloat 0, PFloat (3 / 10)] \<and>
   map cc_n (chat_calls (fst (run sample_env sample_self sample_messages []))) = [1, 1] \<and>
   map cc_max_tokens (chat_calls (fst (run sample_env sample_self sample_messages [])))
     = [500, 1024] \<and>
   map cc_tool_choice (chat_calls (fst (run sample_env sample_self sample_messages [])))
     = [Some ''auto'', None] \<and>
   map cc_stream (chat_calls (fst (run sample_env sample_self sample_messages [])))
     = [None, Some False]"
proof -
  note h = sample_run [of sample_self "[]"]
  from run_completion_parameters [OF h] show ?thesis
    unfolding h
    by (simp add: query_chat_request_def answer_chat_request_def dict_get_default_def)
qed

text \<open>
  C8. When a deployment is configured (\<open>chat_deployment\<close> is a non-empty string), every
  completion of the run is addressed to the deployment, and the props of the first and
  the fourth step of a response hold the base model and the deployment; when none is
  configured (\<open>None\<close>, or the empty string, which Python takes for false), every completion
  is addressed to the base model and the props hold the base model only.
\<close>

theorem run_deployment:
  assumes "run env self messages overrides = (calls, res)"
  shows "(\<forall>d. chat_deployment self = Some d \<and> d \<noteq> [] \<longrightarrow>
            (\<forall>r \<in> set (chat_calls calls). cc_model r = d) \<and>
            (\<forall>resp. res = Inr resp \<longrightarrow>
               props (thoughts (response_context resp) ! 0)
                 = Some [(''model'', PStr (chat_model self)), (''deployment'', PStr d)] \<and>
               props (thoughts (response_context resp) ! 3)
                 = Some [(''model'', PStr (chat_model self)), (''deployment'', PStr d)])) \<and>
         (chat_deployment self = None \<or> chat_deployment self = Some [] \<longrightarrow>
            (\<forall>r \<in> set (chat_calls calls). cc_model r = chat_model self) \<and>
            (\<forall>resp. res = Inr resp \<longrightarrow>
               props (thoughts (response_context resp) ! 0)
                 = Some [(''model'', PStr (chat_model self))] \<and>
               props (thoughts (response_context resp) ! 3)
                 = Some [(''model'', PStr (chat_model self))]))"
  using assms
proof (cases rule: run_cases)
  case (rejected e)
  then show ?thesis by simp
next
  case (accepted q)
  from accepted(3) show ?thesis
    by (cases rule: query_phase_cases)
       (auto simp: query_chat_request_def answer_chat_request_def build_response_def
          completion_model_def model_props_def deployment_set_def)
qed

text \<open>C8 on the sample run, with the deployment "chat-eastus" and without one.\<close>

theorem run_deployment_witness:
  "map cc_model (chat_calls (fst (run sample_env sample_azure_self sample_messages [])))
     = [''chat-eastus'', ''chat-eastus''] \<and>
   props (thoughts (response_context
      (projr (snd (run sample_env sample_azure_self sample_messages [])))) ! 0)
     = Some [(''model'', PStr ''gpt-4o-mini''), (''deployment'', PStr ''chat-eastus'')] \<and>
   props (thoughts (response_context
      (projr (snd (run sample_env sample_azure_self sample_messages [])))) ! 3)
     = Some [(''model'', PStr ''gpt-4o-mini''), (''deployment'', PStr ''chat-eastus'')] \<and>
   map cc_model (chat_calls (fst (run sample_env sample_self sample_messages [])))
     = [''gpt-4o-mini'', ''gpt-4o-mini''] \<and>
   props (thoughts (response_context
      (projr (snd (run sample_env sample_self sample_messages [])))) ! 0)
     = Some [(''model'', PStr ''gpt-4o-mini'')] \<and>
   props (thoughts (response_context
      (projr (snd (run sample_env sample_self sample_messages [])))) ! 3)
     = Some [(''model'', PStr ''gpt-4o-mini'')]"
proof -
  note h1 = sample_run [of sample_azure_self "[]"]
  note h2 = sample_run [of sample_self "[]"]
  have d1: "chat_deployment sample_azure_self = Some ''chat-eastus''" "''chat-eastus'' \<noteq> []"
    "chat_model sample_azure_self = ''gpt-4o-mini''"
    by (simp_all add: sample_azure_self_def sample_self_def)
  have d2: "chat_deployment sample_self = None" "chat_model sample_self = ''gpt-4o-mini''"
    by (simp_all add: sample_self_def)
  from run_deployment [OF h1] d1 have
    "(\<forall>r \<in> set (chat_calls (fst (run sample_env sample_azure_self sample_messages []))).
        cc_model r = ''chat-eastus'') \<and>
     props (thoughts (response_context
        (projr (snd (run sample_env sample_azure_self sample_messages [])))) ! 0)
       = Some [(''model'', PStr ''gpt-4o-mini''), (''deployment'', PStr ''chat-eastus'')] \<and>
     props (thoughts (response_context
        (projr (snd (run sample_env sample_azure_self sample_messages [])))) ! 3)
       = Some [(''model'', PStr ''gpt-4o-mini''), (''deployment'', PStr ''chat-eastus'')]"
    unfolding h1 by simp
  moreover from run_deployment [OF h2] d2 have
    "(\<forall>r \<in> set (chat_calls (fst (run sample_env sample_self sample_messages []))).
        cc_model r = ''gpt-4o-mini'') \<and>
     props (thoughts (response_context
        (projr (snd (run sample_env sample_self sample_messages [])))) ! 0)
       = Some [(''model'', PStr ''gpt-4o-mini'')] \<and>
     props (thoughts (response_context
        (projr (snd (run sample_env sample_self sample_messages [])))) ! 3)
       = Some [(''model'', PStr ''gpt-4o-mini'')]"
    unfolding h2 by simp
  ultimately show ?thesis
    unfolding h1 h2 by simp
qed

section \<open>The token budget\<close>

text \<open>
  \<open>chat_token_limit\<close> is the context limit that \<open>__init__\<close> obtained for the model.
\<close>

lemma init_chat_token_limit:
  "chat_token_limit (init get_token_limit query_txt answer_txt model deployment)
     = get_token_limit model True"
  by (simp add: init_def)

text \<open>
  C9. A run builds at most two prompts and requests no more completions than it has
  built prompts; a run that returns a response does both twice. The first prompt is
  built under the ceiling \<open>chat_token_limit - 500\<close> and the second under
  \<open>chat_token_limit - 1024\<close>; the first completion is capped at 500 output tokens and the
  second at 1024, so that in each phase the ceiling and the cap add up to the context
  limit.
\<close>

theorem run_token_budget:
  assumes "run env self messages overrides = (calls, res)"
  shows "length (chat_calls calls) \<le> length (build_calls calls) \<and>
         length (build_calls calls) \<le> 2 \<and>
         (build_calls calls \<noteq> [] \<longrightarrow>
            bm_max_tokens (build_calls calls ! 0) = chat_token_limit self - 500) \<and>
         (length (build_calls calls) = 2 \<longrightarrow>
            bm_max_tokens (build_calls calls ! 1) = chat_token_limit self - 1024) \<and>
         (chat_calls calls \<noteq> [] \<longrightarrow>
            cc_max_tokens (chat_calls calls ! 0) = 500 \<and>
            bm_max_tokens (build_calls calls ! 0) + cc_max_tokens (chat_calls calls ! 0)
              = chat_token_limit self) \<and>
         (length (chat_calls calls) = 2 \<longrightarrow>
            cc_max_tokens (chat_calls calls ! 1) = 1024 \<and>
            bm_max_tokens (build_calls calls ! 1) + cc_max_tokens (chat_calls calls ! 1)
              = chat_token_limit self) \<and>
         ((\<exists>resp. res = Inr resp) \<longrightarrow>
            length (build_calls calls) = 2 \<and> length (chat_calls calls) = 2)"
  using assms
proof (cases rule: run_cases)
  case (rejected e)
  then show ?thesis by simp
next
  case (accepted q)
  from accepted(3) show ?thesis
    by (cases rule: query_phase_cases)
       (simp_all add: query_chat_request_def answer_chat_request_def
          query_build_request_def answer_build_request_def)
qed

text \<open>C9 on the sample run, whose model has a limit of 128000 tokens.\<close>

theorem run_token_budget_witness:
  "map bm_max_tokens (build_calls (fst (run sample_env sample_self sample_messages [])))
     = [127500, 126976] \<and>
   map cc_max_tokens (chat_calls (fst (run sample_env sample_self sample_messages [])))
     = [500, 1024] \<and>
   chat_token_limit sample_self = 128000"
proof -
  note h = sample_run [of sample_self "[]"]
  from run_token_budget [OF h] show ?thesis
    unfolding h
    by (simp add: query_chat_request_def answer_chat_request_def query_build_request_def
          answer_build_request_def sample_self_def)
qed

section \<open>The user content of the answer prompt\<close>

text \<open>
  C7, as the specification states it, fails on the code. With the two sample items the
  second prompt is built for a user content in which no space follows the colon of a
  source and in which a newline separates the two sources, besides the two newlines that
  end each of them; the specification's wording gives a different string.
\<close>

theorem answer_user_content_spec_counterexample:
  "search_and_embed sample_env
     (hd (search_calls (fst (run sample_env sample_self sample_messages [])))) = Inr sample_items \<and>
   bm_new_user_content (build_calls (fst (run sample_env sample_self sample_messages [])) ! 1)
     = ''What is the return policy?\<newline>\<newline>Sources:\<newline>[1]:Boots\<newline>\<newline>\<newline>[2]:Tent\<newline>\<newline>'' \<and>
   answer_user_content_spec sample_env ''What is the return policy?'' sample_items
     = ''What is the return policy?\<newline>\<newline>Sources:\<newline>[1]: Boots\<newline>\<newline>[2]: Tent\<newline>\<newline>'' \<and>
   bm_new_user_content (build_calls (fst (run sample_env sample_self sample_messages [])) ! 1)
     \<noteq> answer_user_content_spec sample_env ''What is the return policy?'' sample_items"
  unfolding sample_run [of sample_self "[]"]
  by (simp add: answer_build_request_def source_content_def answer_user_content_spec_def
        sample_env_def sample_items_def)

text \<open>
  C7, amended. In every run that builds the second prompt, its user content is the
  original user query, followed by two newlines, "Sources:" and a newline, followed by
  the sources joined by a single newline in result order, where the source of an item is
  "[", the item's id, "]:", the item's renderable text and two newlines, with no space
  after the colon.
\<close>

theorem run_answer_user_content:
  assumes "run env self messages overrides = (calls, res)"
    and "length (build_calls calls) = 2"
  shows "\<exists>q r results.
           map_of (last messages) ''content'' = Some (PStr q) \<and>
           search_calls calls = [r] \<and> search_and_embed env r = Inr results \<and>
           bm_new_user_content (build_calls calls ! 1) =
             q @ ''\<newline>\<newline>Sources:\<newline>'' @
             join ''\<newline>''
               (map (\<lambda>item. ''['' @ py_str env (item_id env item) @ '']:''
                              @ to_str_for_rag env item @ ''\<newline>\<newline>'') results)"
  using assms(1)
proof (cases rule: run_cases)
  case (rejected e)
  with assms(2) show ?thesis by simp
next
  case (accepted q)
  from accepted(3) show ?thesis
    by (cases rule: query_phase_cases)
       (use assms(2) accepted(2) in
         \<open>simp_all add: answer_build_request_def source_content_fun\<close>)
qed

text \<open>C7, amended, on the sample run.\<close>

theorem run_answer_user_content_witness:
  "length (build_calls (fst (run sample_env sample_self sample_messages []))) = 2 \<and>
   bm_new_user_content (build_calls (fst (run sample_env sample_self sample_messages [])) ! 1)
     = ''What is the return policy?\<newline>\<newline>Sources:\<newline>[1]:Boots\<newline>\<newline>\<newline>[2]:Tent\<newline>\<newline>''"
proof -
  note h = sample_run [of sample_self "[]"]
  have l: "length (build_calls (fst (run sample_env sample_self sample_messages []))) = 2"
    by (simp add: h)
  from run_answer_user_content [OF h] l l show ?thesis
    unfolding h
    by (auto simp: sample_env_def sample_items_def sample_messages_def)
qed

section \<open>The extraction of the search arguments\<close>

text \<open>
  C6, on the extractor as the specification describes it. When the completion holds a
  search tool invocation whose arguments parse, the result is the query text of the
  arguments and one filter per filter argument, field for field, in order. When there is
  no search tool invocation, or its arguments do not parse, the result is the original
  user query and the empty list of filters; in both cases the result is a value, never
  an error.
\<close>

theorem extract_search_arguments_spec_contract:
  "(\<forall>c rest t args.
       choices completion = c # rest \<and>
       find (\<lambda>t. function_name t = ''search'') (msg_tool_calls (message c)) = Some t \<and>
       parse (function_arguments t) = Some args
       \<longrightarrow> extract_search_arguments_spec parse q completion =
             Inr (sa_query args,
                  map (\<lambda>a. \<lparr> rf_field = fa_field a, rf_comparator = fa_comparator a,
                              rf_value = fa_value a \<rparr>) (sa_filters args))) \<and>
   (choices completion = [] \<or>
    (\<exists>c rest. choices completion = c # rest \<and>
       (find (\<lambda>t. function_name t = ''search'') (msg_tool_calls (message c)) = None \<or>
        (\<exists>t. find (\<lambda>t. function_name t = ''search'') (msg_tool_calls (message c)) = Some t \<and>
             parse (function_arguments t) = None)))
       \<longrightarrow> extract_search_arguments_spec parse q completion = Inr (q, []))"
proof (intro conjI allI impI)
  fix c rest t args
  assume "choices completion = c # rest \<and>
       find (\<lambda>t. function_name t = ''search'') (msg_tool_calls (message c)) = Some t \<and>
       parse (function_arguments t) = Some args"
  moreover have "filter_of_argument =
      (\<lambda>a. \<lparr> rf_field = fa_field a, rf_comparator = fa_comparator a, rf_value = fa_value a \<rparr>)"
    by (rule ext) (simp add: filter_of_argument_def)
  ultimately show "extract_search_arguments_spec parse q completion =
             Inr (sa_query args,
                  map (\<lambda>a. \<lparr> rf_field = fa_field a, rf_comparator = fa_comparator a,
                              rf_value = fa_value a \<rparr>) (sa_filters args))"
    by (simp add: extract_search_arguments_spec_def)
next
  assume "choices completion = [] \<or>
    (\<exists>c rest. choices completion = c # rest \<and>
       (find (\<lambda>t. function_name t = ''search'') (msg_tool_calls (message c)) = None \<or>
        (\<exists>t. find (\<lambda>t. function_name t = ''search'') (msg_tool_calls (message c)) = Some t \<and>
             parse (function_arguments t) = None)))"
  then show "extract_search_arguments_spec parse q completion = Inr (q, [])"
    by (auto simp: extract_search_arguments_spec_def)
qed

text \<open>
  C6 on a payload that parses, on a truncated payload, and on a completion without a
  tool invocation.
\<close>

theorem extract_search_arguments_spec_contract_witness:
  "extract_search_arguments_spec sample_parse ''Do you sell cheap boots?''
     (sample_tool_completion ''{query: hiking boots, filter: price < 50}'')
     = Inr (''hiking boots'',
            [\<lparr> rf_field = ''price'', rf_comparator = ''<'', rf_value = PInt 50 \<rparr>]) \<and>
   extract_search_arguments_spec sample_parse ''Do you sell cheap boots?''
     (sample_tool_completion ''{query: hiking bo'')
     = Inr (''Do you sell cheap boots?'', []) \<and>
   extract_search_arguments_spec sample_parse ''Do you sell cheap boots?''
     \<lparr> choices = [\<lparr> message = sample_answer \<rparr>] \<rparr>
     = Inr (''Do you sell cheap boots?'', [])"
proof -
  have c1: "choices (sample_tool_completion ''{query: hiking boots, filter: price < 50}'')
              = \<lparr> message =
                    \<lparr> msg_role = ''assistant'', msg_content = PNone,
                      msg_tool_calls =
                        [\<lparr> function_name = ''search'',
                            function_arguments =
                              ''{query: hiking boots, filter: price < 50}'' \<rparr>] \<rparr> \<rparr> # []"
    by (simp add: sample_tool_completion_def)
  have p1: "sample_parse ''{query: hiking boots, filter: price < 50}''
              = Some \<lparr> sa_query = ''hiking boots'',
                  sa_filters = [\<lparr> fa_field = ''price'', fa_comparator = ''<'',
                                  fa_value = PInt 50 \<rparr>] \<rparr>"
    by (simp add: sample_parse_def)
  have c2: "choices (sample_tool_completion ''{query: hiking bo'')
              = \<lparr> message =
                    \<lparr> msg_role = ''assistant'', msg_content = PNone,
                      msg_tool_calls =
                        [\<lparr> function_name = ''search'',
                            function_arguments = ''{query: hiking bo'' \<rparr>] \<rparr> \<rparr> # []"
    by (simp add: sample_tool_completion_def)
  have p2: "sample_parse ''{query: hiking bo'' = None"
    by (simp add: sample_parse_def)
  have c3: "msg_tool_calls sample_answer = []"
    by (simp add: sample_answer_def)
  from extract_search_arguments_spec_contract
         [of "sample_tool_completion ''{query: hiking boots, filter: price < 50}''"
             sample_parse "''Do you sell cheap boots?''"] c1 p1
  have a: "extract_search_arguments_spec sample_parse ''Do you sell cheap boots?''
     (sample_tool_completion ''{query: hiking boots, filter: price < 50}'')
     = Inr (''hiking boots'',
            [\<lparr> rf_field = ''price'', rf_comparator = ''<'', rf_value = PInt 50 \<rparr>])"
    by simp
  from extract_search_arguments_spec_contract
         [of "sample_tool_completion ''{query: hiking bo''" sample_parse
             "''Do you sell cheap boots?''"] c2 p2
  have b: "extract_search_arguments_spec sample_parse ''Do you sell cheap boots?''
     (sample_tool_completion ''{query: hiking bo'')
     = Inr (''Do you sell cheap boots?'', [])"
    by simp
  from extract_search_arguments_spec_contract
         [of "\<lparr> choices = [\<lparr> message = sample_answer \<rparr>] \<rparr>" sample_parse
             "''Do you sell cheap boots?''"] c3
  have c: "extract_search_arguments_spec sample_parse ''Do you sell cheap boots?''
     \<lparr> choices = [\<lparr> message = sample_answer \<rparr>] \<rparr>
     = Inr (''Do you sell cheap boots?'', [])"
    by simp
  from a b c show ?thesis by (intro conjI)
qed

end
